theory Spec2Isabelle
  imports Complex_Main "HOL-Library.AList"
begin

section \<open>Railway ticket booking system: the services of Main.py\<close>

text \<open>
  The program is a thin layer over a document database. The model keeps the database as
  explicit state: a collection is the list of its documents in storage order, a query is a
  predicate on documents, and every service function takes the database and returns its
  result together with the database it leaves behind. Values of different kinds (an object
  id and a string, a calendar date and a date-time) are never equal, and a calendar date has
  no encoding in the store: the driver refuses a document that holds one. The random
  generator is state as well: a function that draws from it returns the generator it leaves
  behind. The object id the driver generates for an inserted document is a parameter.
\<close>

subsection \<open>Data model\<close>

type_synonym py_float = rat

record TrainClass =
  type :: string
  totalSeats :: int
  fare :: py_float

record date =
  year :: nat
  month :: nat
  day :: nat

text \<open>As in Python, a \<^verbatim>\<open>datetime\<close> is a \<^verbatim>\<open>date\<close> with a time of day.\<close>

record datetime = date +
  hour :: nat
  minute :: nat
  second :: nat
  microsecond :: nat

text \<open>The values that fields compared by the queries may hold.\<close>

datatype bson = ObjectId nat | Str string | Date date | Datetime datetime

text \<open>
  A document of the \<^verbatim>\<open>trains\<close> collection, with the keys the queries read:
  \<open>t_id\<close> is the key \<^verbatim>\<open>_id\<close>, \<open>t_from\<close> and \<open>t_to\<close> are the keys
  \<^verbatim>\<open>from\<close> and \<^verbatim>\<open>to\<close>, \<open>t_name\<close> is \<^verbatim>\<open>name\<close>.
\<close>

record train_doc =
  t_id :: bson
  trainNumber :: string
  t_name :: string
  t_from :: string
  t_to :: string
  departureTime :: datetime
  arrivalTime :: datetime
  classes :: "TrainClass list"

record Passenger =
  name :: string
  seatNumber :: string

text \<open>The request body of \<^verbatim>\<open>POST /bookings\<close> (the pydantic model \<^verbatim>\<open>Booking\<close>).\<close>

record Booking =
  pnr :: string
  train :: string
  user :: string
  journeyDate :: date
  status :: string
  passengers :: "Passenger list"
  class_type :: string
  totalFare :: py_float

text \<open>
  A document of the \<^verbatim>\<open>bookings\<close> collection: the keys of \<^verbatim>\<open>Booking.dict()\<close>
  (prefixed with \<open>b_\<close>) and the key \<^verbatim>\<open>_id\<close> (\<open>b_id\<close>).
\<close>

record booking_doc =
  b_id :: bson
  b_pnr :: string
  b_train :: bson
  b_user :: string
  b_journeyDate :: bson
  b_status :: string
  b_passengers :: "Passenger list"
  b_class_type :: string
  b_totalFare :: py_float

record database =
  trains :: "train_doc list"
  bookings :: "booking_doc list"

datatype error =
    ValueError
  | InvalidDocument
  | DuplicateKeyError
  | HTTPException nat string

subsection \<open>The date-time values and \<^verbatim>\<open>datetime.strptime(date, "%Y-%m-%d")\<close>\<close>

definition datetime_key :: "datetime \<Rightarrow> nat list" where
  "datetime_key t = [year t, month t, day t, hour t, minute t, second t, microsecond t]"

fun lex_less :: "nat list \<Rightarrow> nat list \<Rightarrow> bool" where
  "lex_less (x # xs) (y # ys) = (x < y \<or> (x = y \<and> lex_less xs ys))"
| "lex_less _ _ = False"

definition datetime_lt :: "datetime \<Rightarrow> datetime \<Rightarrow> bool" where
  "datetime_lt a b = lex_less (datetime_key a) (datetime_key b)"

definition datetime_le :: "datetime \<Rightarrow> datetime \<Rightarrow> bool" where
  "datetime_le a b = (datetime_lt a b \<or> datetime_key a = datetime_key b)"

definition is_digit :: "char \<Rightarrow> bool" where
  "is_digit c = (c \<in> set ''0123456789'')"

definition int_of_digits :: "string \<Rightarrow> nat" where
  "int_of_digits s = foldl (\<lambda>n c. 10 * n + (of_char c - 48)) 0 s"

definition is_leap :: "nat \<Rightarrow> bool" where
  "is_leap y = (y mod 4 = 0 \<and> (y mod 100 \<noteq> 0 \<or> y mod 400 = 0))"

definition days_in_month :: "nat \<Rightarrow> nat \<Rightarrow> nat" where
  "days_in_month y m =
     (if m = 2 then (if is_leap y then 29 else 28)
      else if m = 4 \<or> m = 6 \<or> m = 9 \<or> m = 11 then 30 else 31)"

text \<open>A month or day field of the format: one or two digits.\<close>

definition number_token :: "string \<Rightarrow> nat option" where
  "number_token s =
     (if s \<noteq> [] \<and> length s \<le> 2 \<and> list_all is_digit s then Some (int_of_digits s) else None)"

text \<open>The day field also accepts a space followed by one digit.\<close>

definition day_token :: "string \<Rightarrow> nat option" where
  "day_token s =
     (case s of
        [c, d] \<Rightarrow> if c = CHR '' '' then number_token [d] else number_token s
      | _ \<Rightarrow> number_token s)"

text \<open>
  \<^verbatim>\<open>datetime.strptime(s, "%Y-%m-%d")\<close> on ASCII input: four digits of year, a hyphen,
  the month, a hyphen, the day and nothing more; a string of another shape and a date that
  is not in the calendar raise \<^verbatim>\<open>ValueError\<close>. The result is midnight of the day.
\<close>

definition strptime_ymd :: "string \<Rightarrow> error + datetime" where
  "strptime_ymd s =
     (let ytok = take 4 s; r = drop 4 s in
      if length ytok = 4 \<and> list_all is_digit ytok \<and> r \<noteq> [] \<and> hd r = CHR ''-'' then
        (let mtok = takeWhile (\<lambda>c. c \<noteq> CHR ''-'') (tl r);
             r' = dropWhile (\<lambda>c. c \<noteq> CHR ''-'') (tl r) in
         if r' = [] then Inl ValueError
         else
           (case (number_token mtok, day_token (tl r')) of
              (Some m, Some d) \<Rightarrow>
                (let y = int_of_digits ytok in
                 if 1 \<le> y \<and> 1 \<le> m \<and> m \<le> 12 \<and> 1 \<le> d \<and> d \<le> days_in_month y m
                 then Inr \<lparr>year = y, month = m, day = d,
                           hour = 0, minute = 0, second = 0, microsecond = 0\<rparr>
                 else Inl ValueError)
            | _ \<Rightarrow> Inl ValueError))
      else Inl ValueError)"

subsection \<open>The collection operations the services call\<close>

text \<open>\<^verbatim>\<open>find(q).to_list(length=None)\<close>: the matching documents, in storage order.\<close>

definition find_docs :: "('a \<Rightarrow> bool) \<Rightarrow> 'a list \<Rightarrow> 'a list" where
  "find_docs q coll = filter q coll"

text \<open>\<^verbatim>\<open>find_one(q)\<close>: the first matching document, or \<^verbatim>\<open>None\<close>.\<close>

definition find_one :: "('a \<Rightarrow> bool) \<Rightarrow> 'a list \<Rightarrow> 'a option" where
  "find_one q coll = find q coll"

definition count_documents :: "('a \<Rightarrow> bool) \<Rightarrow> 'a list \<Rightarrow> nat" where
  "count_documents q coll = length (filter q coll)"

text \<open>
  The driver encodes a document before it sends it. Object ids, strings and date-times have
  an encoding; a calendar date (\<^verbatim>\<open>datetime.date\<close>) has none.
\<close>

definition bson_encodable :: "bson \<Rightarrow> bool" where
  "bson_encodable v = (case v of Date _ \<Rightarrow> False | _ \<Rightarrow> True)"

text \<open>
  \<^verbatim>\<open>bookings.insert_one(doc)\<close>. A document with a value that has no encoding is
  refused by the driver with \<^verbatim>\<open>InvalidDocument\<close> before anything reaches the
  collection. The collection has the unique index on \<^verbatim>\<open>_id\<close> that every
  collection has and the unique index on \<^verbatim>\<open>pnr\<close> that
  \<^verbatim>\<open>connect_to_mongo\<close> creates: a document that repeats either key is refused with
  \<^verbatim>\<open>DuplicateKeyError\<close>. A refused document leaves the collection as it was.
\<close>

definition insert_one :: "booking_doc \<Rightarrow> booking_doc list \<Rightarrow> error + booking_doc list" where
  "insert_one doc coll =
     (if \<not> (bson_encodable (b_id doc) \<and> bson_encodable (b_train doc) \<and>
             bson_encodable (b_journeyDate doc))
      then Inl InvalidDocument
      else if list_ex (\<lambda>d. b_id d = b_id doc \<or> b_pnr d = b_pnr doc) coll
      then Inl DuplicateKeyError
      else Inr (coll @ [doc]))"

text \<open>
  \<^verbatim>\<open>bookings.update_one(q, {"$set": {"status": v}})\<close>: the first matching document
  gets the status \<open>v\<close>; the count of modified documents is 1 when that changed the
  document and 0 when nothing matched or the status was \<open>v\<close> already.
\<close>

fun update_one_status :: "(booking_doc \<Rightarrow> bool) \<Rightarrow> string \<Rightarrow> booking_doc list \<Rightarrow> nat \<times> booking_doc list" where
  "update_one_status q v [] = (0, [])"
| "update_one_status q v (d # ds) =
     (if q d then ((if b_status d = v then 0 else 1), d\<lparr>b_status := v\<rparr> # ds)
      else (case update_one_status q v ds of (n, ds') \<Rightarrow> (n, d # ds')))"

subsection \<open>Services\<close>

definition search_trains :: "string \<Rightarrow> string \<Rightarrow> string \<Rightarrow> database \<Rightarrow> error + train_doc list" where
  "search_trains from_station to_station date db =
     (case strptime_ymd date of
        Inl e \<Rightarrow> Inl e
      | Inr date_obj \<Rightarrow>
          Inr (find_docs
                 (\<lambda>t. t_from t = from_station \<and> t_to t = to_station \<and>
                      datetime_le date_obj (departureTime t) \<and>
                      datetime_lt (departureTime t)
                        (date_obj\<lparr>hour := 23, minute := 59, second := 59\<rparr>))
                 (trains db)))"

definition check_seat_availability :: "string \<Rightarrow> string \<Rightarrow> database \<Rightarrow> error + (string \<times> int) list option" where
  "check_seat_availability train_number date db =
     (case strptime_ymd date of
        Inl e \<Rightarrow> Inl e
      | Inr date_obj \<Rightarrow>
          (case find_one (\<lambda>t. trainNumber t = train_number) (trains db) of
             None \<Rightarrow> Inr None
           | Some tr \<Rightarrow>
               (let n = count_documents
                          (\<lambda>b. b_train b = t_id tr \<and> b_journeyDate b = Datetime date_obj \<and>
                               b_status b = ''confirmed'')
                          (bookings db)
                in Inr (Some (fold (\<lambda>class_info availability.
                                      AList.update (type class_info) (totalSeats class_info - int n)
                                        availability)
                                (classes tr) [])))))"

definition ascii_uppercase :: string where
  "ascii_uppercase = ''ABCDEFGHIJKLMNOPQRSTUVWXYZ''"

definition digits :: string where
  "digits = ''0123456789''"

text \<open>
  The state of the random generator: the sequence of the numbers it will draw. Dropping the
  first \<open>k\<close> of them is what \<open>k\<close> draws leave behind.
\<close>

type_synonym rng = "nat \<Rightarrow> nat"

definition rng_drop :: "nat \<Rightarrow> rng \<Rightarrow> rng" where
  "rng_drop k g = (\<lambda>i. g (i + k))"

text \<open>
  \<^verbatim>\<open>random.choices(population, k=k)\<close>: \<open>k\<close> independent draws from the population; the
  \<open>i\<close>-th draw takes the element at index \<open>g i mod length population\<close>.
\<close>

definition random_choices :: "'a list \<Rightarrow> nat \<Rightarrow> rng \<Rightarrow> 'a list \<times> rng" where
  "random_choices population k g =
     (map (\<lambda>i. population ! (g i mod length population)) [0..<k], rng_drop k g)"

text \<open>\<^verbatim>\<open>booking_data.dict()\<close>, with the \<^verbatim>\<open>_id\<close> the driver adds on insertion.\<close>

definition to_document :: "bson \<Rightarrow> Booking \<Rightarrow> booking_doc" where
  "to_document oid b =
     \<lparr>b_id = oid, b_pnr = pnr b, b_train = Str (train b), b_user = user b,
      b_journeyDate = Date (journeyDate b), b_status = status b,
      b_passengers = passengers b, b_class_type = class_type b, b_totalFare = totalFare b\<rparr>"

definition create_booking :: "rng \<Rightarrow> nat \<Rightarrow> Booking \<Rightarrow> database \<Rightarrow> (error + booking_doc option) \<times> database \<times> rng" where
  "create_booking g oid booking_data db =
     (case random_choices (ascii_uppercase @ digits) 10 g of
        (code, g') \<Rightarrow>
          (let booking_data' = booking_data\<lparr>pnr := code\<rparr> in
           case insert_one (to_document (ObjectId oid) booking_data') (bookings db) of
             Inl e \<Rightarrow> (Inl e, db, g')
           | Inr coll \<Rightarrow>
               (let db' = db\<lparr>bookings := coll\<rparr>
                in (Inr (find_one (\<lambda>d. b_id d = ObjectId oid) (bookings db')), db', g'))))"

definition cancel_booking :: "bson \<Rightarrow> database \<Rightarrow> bool \<times> database" where
  "cancel_booking booking_id db =
     (case update_one_status (\<lambda>d. b_id d = booking_id) ''cancelled'' (bookings db) of
        (modified_count, coll) \<Rightarrow> (modified_count > 0, db\<lparr>bookings := coll\<rparr>))"

subsection \<open>Routes\<close>

definition search_trains_route :: "string \<Rightarrow> string \<Rightarrow> string \<Rightarrow> database \<Rightarrow> error + train_doc list" where
  "search_trains_route from_station to_station date db =
     (case search_trains from_station to_station date db of
        Inl e \<Rightarrow> Inl e
      | Inr ts \<Rightarrow> if ts = [] then Inl (HTTPException 404 ''No trains found'') else Inr ts)"

definition check_availability :: "string \<Rightarrow> string \<Rightarrow> database \<Rightarrow> error + (string \<times> int) list" where
  "check_availability train_number date db =
     (case check_seat_availability train_number date db of
        Inl e \<Rightarrow> Inl e
      | Inr None \<Rightarrow> Inl (HTTPException 404 ''Train not found or no availability'')
      | Inr (Some availability) \<Rightarrow>
          if availability = [] then Inl (HTTPException 404 ''Train not found or no availability'')
          else Inr availability)"

definition book_ticket :: "rng \<Rightarrow> nat \<Rightarrow> Booking \<Rightarrow> database \<Rightarrow> (error + booking_doc) \<times> database \<times> rng" where
  "book_ticket g oid booking db =
     (case create_booking g oid booking db of
        (Inl e, db', g') \<Rightarrow> (Inl e, db', g')
      | (Inr None, db', g') \<Rightarrow> (Inl (HTTPException 400 ''Booking failed''), db', g')
      | (Inr (Some created_booking), db', g') \<Rightarrow> (Inr created_booking, db', g'))"

definition cancel_ticket :: "string \<Rightarrow> database \<Rightarrow> (error + string) \<times> database" where
  "cancel_ticket booking_id db =
     (case cancel_booking (Str booking_id) db of
        (cancelled, db') \<Rightarrow>
          if \<not> cancelled then (Inl (HTTPException 404 ''Booking not found or already cancelled''), db')
          else (Inr ''Booking cancelled successfully'', db'))"

subsection \<open>Requests in sequence\<close>




subsection \<open>The spec's quantities, read off the stored documents\<close>




definition spec_totalSeats :: "database \<Rightarrow> string \<Rightarrow> string \<Rightarrow> int option" where
  "spec_totalSeats db train_number class_name =
     (case find_one (\<lambda>t. trainNumber t = train_number) (trains db) of
        None \<Rightarrow> None
      | Some tr \<Rightarrow> map_option totalSeats (find (\<lambda>c. type c = class_name) (classes tr)))"

subsection \<open>Example data\<close>

definition may_day :: datetime where
  "may_day = \<lparr>year = 2024, month = 5, day = 1, hour = 0, minute = 0, second = 0, microsecond = 0\<rparr>"

definition train_T100 :: train_doc where
  "train_T100 =
     \<lparr>t_id = Str ''T100'', trainNumber = ''T100'', t_name = ''Morning Mail'',
      t_from = ''NDLS'', t_to = ''BCT'',
      departureTime = may_day\<lparr>hour := 10\<rparr>, arrivalTime = may_day\<lparr>hour := 22\<rparr>,
      classes = [\<lparr>type = ''SL'', totalSeats = 2, fare = 100\<rparr>,
                 \<lparr>type = ''AC'', totalSeats = 2, fare = 250\<rparr>]\<rparr>"

definition train_T200 :: train_doc where
  "train_T200 =
     \<lparr>t_id = Str ''T200'', trainNumber = ''T200'', t_name = ''Dawn Express'',
      t_from = ''NDLS'', t_to = ''BCT'',
      departureTime = may_day\<lparr>hour := 8\<rparr>, arrivalTime = may_day\<lparr>hour := 20\<rparr>,
      classes = [\<lparr>type = ''SL'', totalSeats = 1, fare = 100\<rparr>]\<rparr>"

definition train_T300 :: train_doc where
  "train_T300 =
     \<lparr>t_id = Str ''T300'', trainNumber = ''T300'', t_name = ''Night Mail'',
      t_from = ''NDLS'', t_to = ''BCT'',
      departureTime = may_day\<lparr>hour := 23, minute := 59, second := 59\<rparr>,
      arrivalTime = may_day\<lparr>day := 2, hour := 11\<rparr>,
      classes = []\<rparr>"

definition example_db :: database where
  "example_db = \<lparr>trains = [train_T100, train_T200, train_T300], bookings = []\<rparr>"

definition stored_booking :: "bson \<Rightarrow> string \<Rightarrow> string \<Rightarrow> booking_doc" where
  "stored_booking i p s =
     \<lparr>b_id = i, b_pnr = p, b_train = Str ''T100'', b_user = ''u1'',
      b_journeyDate = Datetime may_day, b_status = s,
      b_passengers = [\<lparr>name = ''Asha'', seatNumber = ''12''\<rparr>], b_class_type = ''SL'',
      b_totalFare = 100\<rparr>"

definition booked_db :: database where
  "booked_db =
     \<lparr>trains = [train_T100, train_T200, train_T300],
      bookings = [stored_booking (ObjectId 1) ''AAAAAAAAAA'' ''confirmed'',
                  stored_booking (ObjectId 2) ''AAAAAAAAAB'' ''confirmed'',
                  stored_booking (ObjectId 3) ''AAAAAAAAAC'' ''confirmed'',
                  stored_booking (Str ''b4'') ''AAAAAAAAAD'' ''pending'',
                  stored_booking (Str ''b5'') ''AAAAAAAAAE'' ''cancelled'']\<rparr>"

definition example_booking :: Booking where
  "example_booking =
     \<lparr>pnr = ''CLIENT0001'', train = ''T200'', user = ''u1'',
      journeyDate = \<lparr>year = 2024, month = 5, day = 1\<rparr>, status = ''confirmed'',
      passengers = [\<lparr>name = ''Asha'', seatNumber = ''12''\<rparr>], class_type = ''SL'',
      totalFare = 100\<rparr>"


definition rnd_zero :: rng where
  "rnd_zero i = 0"




section \<open>Properties\<close>

subsection \<open>Searching trains\<close>

lemma strptime_midnight:
  "strptime_ymd s = Inr d \<Longrightarrow> hour d = 0 \<and> minute d = 0 \<and> second d = 0 \<and> microsecond d = 0"
  by (auto simp: strptime_ymd_def Let_def split: if_splits option.splits prod.splits)

lemma strptime_may_day: "strptime_ymd ''2024-05-01'' = Inr may_day"
  by (simp add: strptime_ymd_def number_token_def day_token_def is_digit_def int_of_digits_def
        days_in_month_def is_leap_def may_day_def)

text \<open>
  Between midnight and 23:59:59 of the same day: the comparison of the query, spelled out
  on the fields of the departure time.
\<close>

lemma window_iff:
  assumes "hour d = 0" "minute d = 0" "second d = 0" "microsecond d = 0"
  shows "(datetime_le d x \<and> datetime_lt x (d\<lparr>hour := 23, minute := 59, second := 59\<rparr>)) \<longleftrightarrow>
         (year x = year d \<and> month x = month d \<and> day x = day d \<and>
          lex_less [hour x, minute x, second x] [23, 59, 59])"
  using assms by (auto simp: datetime_le_def datetime_lt_def datetime_key_def)

lemma search_trains_filter:
  assumes "strptime_ymd date = Inr d"
  shows "search_trains f t date db =
         Inr (filter (\<lambda>x. t_from x = f \<and> t_to x = t \<and>
                year (departureTime x) = year d \<and> month (departureTime x) = month d \<and>
                day (departureTime x) = day d \<and>
                lex_less [hour (departureTime x), minute (departureTime x), second (departureTime x)]
                         [23, 59, 59])
              (trains db))"
proof -
  from assms have m: "hour d = 0" "minute d = 0" "second d = 0" "microsecond d = 0"
    using strptime_midnight by blast+
  show ?thesis
    unfolding search_trains_def find_docs_def assms sum.case
    by (rule arg_cong [where f = Inr], rule filter_cong [OF refl])
       (use window_iff [OF m] in blast)
qed

text \<open>
  C10. For a well-formed date, \<open>search_trains\<close> returns a stored train exactly when its
  route matches and its departure time lies on that day at or after 00:00:00 and strictly
  before 23:59:59. A train that departs at 23:59:59 (with any fraction of that last second)
  is therefore never among the results.
\<close>

theorem search_trains_window:
  assumes "strptime_ymd date = Inr d"
  shows "\<exists>ts. search_trains f t date db = Inr ts \<and>
           (\<forall>x. x \<in> set ts \<longleftrightarrow>
                  x \<in> set (trains db) \<and> t_from x = f \<and> t_to x = t \<and>
                  year (departureTime x) = year d \<and> month (departureTime x) = month d \<and>
                  day (departureTime x) = day d \<and>
                  lex_less [hour (departureTime x), minute (departureTime x), second (departureTime x)]
                           [23, 59, 59]) \<and>
           (\<forall>x. hour (departureTime x) = 23 \<and> minute (departureTime x) = 59 \<and>
                 second (departureTime x) = 59 \<longrightarrow> x \<notin> set ts)"
  unfolding search_trains_filter [OF assms] by auto

theorem search_trains_window_witness:
  "strptime_ymd ''2024-05-01'' = Inr may_day \<and>
   (\<exists>ts. search_trains ''NDLS'' ''BCT'' ''2024-05-01'' example_db = Inr ts \<and>
      train_T100 \<in> set ts \<and> train_T300 \<notin> set ts)"
proof -
  note w = search_trains_window [OF strptime_may_day, of "''NDLS''" "''BCT''" example_db]
  then obtain ts where ts: "search_trains ''NDLS'' ''BCT'' ''2024-05-01'' example_db = Inr ts"
    and mem: "\<forall>x. x \<in> set ts \<longleftrightarrow>
                  x \<in> set (trains example_db) \<and> t_from x = ''NDLS'' \<and> t_to x = ''BCT'' \<and>
                  year (departureTime x) = year may_day \<and> month (departureTime x) = month may_day \<and>
                  day (departureTime x) = day may_day \<and>
                  lex_less [hour (departureTime x), minute (departureTime x), second (departureTime x)]
                           [23, 59, 59]"
    and fin: "\<forall>x. hour (departureTime x) = 23 \<and> minute (departureTime x) = 59 \<and>
                 second (departureTime x) = 59 \<longrightarrow> x \<notin> set ts"
    by auto
  have "train_T100 \<in> set ts"
    unfolding mem [rule_format] by (simp add: example_db_def train_T100_def may_day_def)
  moreover have "train_T300 \<notin> set ts"
    by (rule fin [rule_format]) (simp add: train_T300_def)
  ultimately show ?thesis using ts strptime_may_day by blast
qed

text \<open>
  C7, as stated, fails: the query has no sort. In the example collection the 10:00 train is
  stored before the 08:00 train, and the search returns them in that order.
\<close>

theorem search_trains_unsorted_counterexample:
  "search_trains ''NDLS'' ''BCT'' ''2024-05-01'' example_db = Inr [train_T100, train_T200] \<and>
   datetime_lt (departureTime train_T200) (departureTime train_T100)"
  by (simp add: search_trains_filter [OF strptime_may_day] example_db_def train_T100_def
        train_T200_def train_T300_def may_day_def datetime_lt_def datetime_key_def)

text \<open>
  C7, amended. For a well-formed date the result is the stored collection restricted to the
  returned trains, so it keeps the order in which the trains are stored; every returned train
  has the requested route and departs on the requested day; every stored train of that route
  that departs on that day before 23:59:59 is returned; and the route answers 404 instead of
  an empty list.
\<close>

theorem search_trains_stored_order:
  assumes "strptime_ymd date = Inr d"
  shows "\<exists>ts. search_trains f t date db = Inr ts \<and>
           ts = filter (\<lambda>x. x \<in> set ts) (trains db) \<and>
           (\<forall>x \<in> set ts. t_from x = f \<and> t_to x = t \<and> year (departureTime x) = year d \<and>
                month (departureTime x) = month d \<and> day (departureTime x) = day d) \<and>
           (\<forall>x \<in> set (trains db).
                t_from x = f \<and> t_to x = t \<and> year (departureTime x) = year d \<and>
                month (departureTime x) = month d \<and> day (departureTime x) = day d \<and>
                lex_less [hour (departureTime x), minute (departureTime x), second (departureTime x)]
                         [23, 59, 59]
                \<longrightarrow> x \<in> set ts) \<and>
           search_trains_route f t date db =
             (if ts = [] then Inl (HTTPException 404 ''No trains found'') else Inr ts)"
proof -
  let ?P = "\<lambda>x. t_from x = f \<and> t_to x = t \<and>
                year (departureTime x) = year d \<and> month (departureTime x) = month d \<and>
                day (departureTime x) = day d \<and>
                lex_less [hour (departureTime x), minute (departureTime x), second (departureTime x)]
                         [23, 59, 59]"
  let ?ts = "filter ?P (trains db)"
  have eq: "search_trains f t date db = Inr ?ts"
    by (rule search_trains_filter [OF assms])
  have order: "?ts = filter (\<lambda>x. x \<in> set ?ts) (trains db)"
    by (rule filter_cong [OF refl]) simp
  have route: "search_trains_route f t date db =
                 (if ?ts = [] then Inl (HTTPException 404 ''No trains found'') else Inr ?ts)"
    unfolding search_trains_route_def eq by simp
  have sound: "\<forall>x \<in> set ?ts. t_from x = f \<and> t_to x = t \<and> year (departureTime x) = year d \<and>
                month (departureTime x) = month d \<and> day (departureTime x) = day d"
    by simp
  have complete: "\<forall>x \<in> set (trains db). ?P x \<longrightarrow> x \<in> set ?ts"
    by simp
  from eq order route sound complete show ?thesis by blast
qed

theorem search_trains_stored_order_witness:
  "strptime_ymd ''2024-05-01'' = Inr may_day \<and>
   search_trains ''NDLS'' ''BCT'' ''2024-05-01'' example_db = Inr [train_T100, train_T200] \<and>
   search_trains_route ''NDLS'' ''BCT'' ''2024-05-01'' example_db = Inr [train_T100, train_T200] \<and>
   filter (\<lambda>x. x \<in> set [train_T100, train_T200]) (trains example_db) = [train_T100, train_T200]"
proof -
  have r: "search_trains ''NDLS'' ''BCT'' ''2024-05-01'' example_db = Inr [train_T100, train_T200]"
    by (simp add: search_trains_filter [OF strptime_may_day] example_db_def train_T100_def
          train_T200_def train_T300_def may_day_def)
  from search_trains_stored_order [OF strptime_may_day, of "''NDLS''" "''BCT''" example_db]
  obtain ts where ts: "search_trains ''NDLS'' ''BCT'' ''2024-05-01'' example_db = Inr ts"
    and order: "ts = filter (\<lambda>x. x \<in> set ts) (trains example_db)"
    and route: "search_trains_route ''NDLS'' ''BCT'' ''2024-05-01'' example_db =
                  (if ts = [] then Inl (HTTPException 404 ''No trains found'') else Inr ts)"
    by blast
  from ts r have eq: "ts = [train_T100, train_T200]" by simp
  from order have "filter (\<lambda>x. x \<in> set [train_T100, train_T200]) (trains example_db) =
                     [train_T100, train_T200]"
    unfolding eq by (rule sym)
  moreover from route have "search_trains_route ''NDLS'' ''BCT'' ''2024-05-01'' example_db =
                     Inr [train_T100, train_T200]"
    unfolding eq by simp
  ultimately show ?thesis using r strptime_may_day by blast
qed

subsection \<open>Seat availability\<close>

lemma update_fresh_key: "k \<notin> fst ` set al \<Longrightarrow> AList.update k v al = al @ [(k, v)]"
  by (induction al) auto

lemma fold_update_distinct:
  "distinct (map k cs) \<Longrightarrow> k ` set cs \<inter> fst ` set al = {} \<Longrightarrow>
   fold (\<lambda>c. AList.update (k c) (v c)) cs al = al @ map (\<lambda>c. (k c, v c)) cs"
proof (induction cs arbitrary: al)
  case Nil
  then show ?case by simp
next
  case (Cons c cs)
  from Cons.prems have fresh: "k c \<notin> fst ` set al" by auto
  have step: "AList.update (k c) (v c) al = al @ [(k c, v c)]"
    by (rule update_fresh_key [OF fresh])
  from Cons.prems have "distinct (map k cs)"
    and "k ` set cs \<inter> fst ` set (al @ [(k c, v c)]) = {}"
    by auto
  then have "fold (\<lambda>c. AList.update (k c) (v c)) cs (al @ [(k c, v c)]) =
               (al @ [(k c, v c)]) @ map (\<lambda>c. (k c, v c)) cs"
    by (rule Cons.IH)
  then show ?case by (simp add: step)
qed

lemma fold_update_empty_iff:
  "fold (\<lambda>c. AList.update (k c) (v c)) cs al = [] \<longleftrightarrow> cs = [] \<and> al = []"
  by (induction cs arbitrary: al) simp_all

lemma map_of_fold_update:
  "map_of (fold (\<lambda>c. AList.update (k c) (v c)) cs al) =
   map_of (rev (map (\<lambda>c. (k c, v c)) cs) @ al)"
proof (induction cs arbitrary: al)
  case Nil
  then show ?case by simp
next
  case (Cons c cs)
  have "map_of (fold (\<lambda>c. AList.update (k c) (v c)) (c # cs) al) =
        map_of (rev (map (\<lambda>c. (k c, v c)) cs) @ AList.update (k c) (v c) al)"
    by (simp add: Cons.IH)
  also have "\<dots> = map_of (rev (map (\<lambda>c. (k c, v c)) cs) @ (k c, v c) # al)"
    by (simp add: map_of_append update_conv')
  finally show ?case by simp
qed

text \<open>
  C2, as stated, fails. Train T100 has two seats in class SL and two in class AC; three
  confirmed bookings of class SL, and none of class AC, are stored for it on 2024-05-01.
  The reported availability is -1 for SL and -1 for AC: the bookings of one class reduce the
  other, and the value is negative.
\<close>

theorem check_seat_availability_counterexample:
  "map b_class_type (bookings booked_db) = [''SL'', ''SL'', ''SL'', ''SL'', ''SL''] \<and>
   spec_totalSeats booked_db ''T100'' ''AC'' = Some 2 \<and>
   check_seat_availability ''T100'' ''2024-05-01'' booked_db =
     Inr (Some [(''SL'', - 1), (''AC'', - 1)])"
  by (simp add: check_seat_availability_def strptime_may_day find_one_def count_documents_def
        spec_totalSeats_def booked_db_def stored_booking_def train_T100_def train_T200_def)

text \<open>
  C2, amended. For a well-formed date and a known train, the availability of every class of
  the train is the \<open>totalSeats\<close> of that class minus one and the same number: the count of
  stored booking documents with that train's id, that date at midnight and status
  \<^verbatim>\<open>confirmed\<close>, whatever their class and however many passengers they have. When
  the class names of the train are distinct the result lists the classes in the train's
  order; in general a later class of the same name replaces the earlier one. The route
  answers 404 for a train without classes and for an unknown train.
\<close>

theorem check_seat_availability_counts:
  assumes "strptime_ymd date = Inr d"
  shows "(find_one (\<lambda>t. trainNumber t = tn) (trains db) = None \<longrightarrow>
            check_seat_availability tn date db = Inr None \<and>
            check_availability tn date db =
              Inl (HTTPException 404 ''Train not found or no availability'')) \<and>
         (\<forall>tr n. find_one (\<lambda>t. trainNumber t = tn) (trains db) = Some tr \<and>
                 n = length (filter (\<lambda>b. b_train b = t_id tr \<and> b_journeyDate b = Datetime d \<and>
                                          b_status b = ''confirmed'') (bookings db)) \<longrightarrow>
            (\<exists>av. check_seat_availability tn date db = Inr (Some av) \<and>
               map_of av = map_of (rev (map (\<lambda>c. (type c, totalSeats c - int n)) (classes tr))) \<and>
               (distinct (map type (classes tr)) \<longrightarrow>
                  av = map (\<lambda>c. (type c, totalSeats c - int n)) (classes tr)) \<and>
               check_availability tn date db =
                 (if classes tr = []
                  then Inl (HTTPException 404 ''Train not found or no availability'')
                  else Inr av)))"
proof (rule conjI; intro allI impI)
  assume "find_one (\<lambda>t. trainNumber t = tn) (trains db) = None"
  then show "check_seat_availability tn date db = Inr None \<and>
            check_availability tn date db =
              Inl (HTTPException 404 ''Train not found or no availability'')"
    by (simp add: check_availability_def check_seat_availability_def assms)
next
  fix tr n
  assume a: "find_one (\<lambda>t. trainNumber t = tn) (trains db) = Some tr \<and>
             n = length (filter (\<lambda>b. b_train b = t_id tr \<and> b_journeyDate b = Datetime d \<and>
                                      b_status b = ''confirmed'') (bookings db))"
  let ?av = "fold (\<lambda>c. AList.update (type c) (totalSeats c - int n)) (classes tr) []"
  have eq: "check_seat_availability tn date db = Inr (Some ?av)"
    using a by (simp add: check_seat_availability_def assms count_documents_def)
  have m: "map_of ?av = map_of (rev (map (\<lambda>c. (type c, totalSeats c - int n)) (classes tr)))"
    using map_of_fold_update [of type "\<lambda>c. totalSeats c - int n" "classes tr" "[]"] by simp
  have d: "?av = map (\<lambda>c. (type c, totalSeats c - int n)) (classes tr)"
    if "distinct (map type (classes tr))"
    using fold_update_distinct [of type "classes tr" "[]" "\<lambda>c. totalSeats c - int n"] that by simp
  have e: "?av = [] \<longleftrightarrow> classes tr = []"
    by (rule fold_update_empty_iff [of type "\<lambda>c. totalSeats c - int n" "classes tr" "[]", simplified])
  have r: "check_availability tn date db =
             (if classes tr = [] then Inl (HTTPException 404 ''Train not found or no availability'')
              else Inr ?av)"
    unfolding check_availability_def eq using e by simp
  from eq m d r show "\<exists>av. check_seat_availability tn date db = Inr (Some av) \<and>
               map_of av = map_of (rev (map (\<lambda>c. (type c, totalSeats c - int n)) (classes tr))) \<and>
               (distinct (map type (classes tr)) \<longrightarrow>
                  av = map (\<lambda>c. (type c, totalSeats c - int n)) (classes tr)) \<and>
               check_availability tn date db =
                 (if classes tr = []
                  then Inl (HTTPException 404 ''Train not found or no availability'')
                  else Inr av)"
    by blast
qed

theorem check_seat_availability_counts_witness:
  "strptime_ymd ''2024-05-01'' = Inr may_day \<and>
   find_one (\<lambda>t. trainNumber t = ''T900'') (trains booked_db) = None \<and>
   check_seat_availability ''T900'' ''2024-05-01'' booked_db = Inr None \<and>
   check_availability ''T900'' ''2024-05-01'' booked_db =
     Inl (HTTPException 404 ''Train not found or no availability'') \<and>
   find_one (\<lambda>t. trainNumber t = ''T100'') (trains booked_db) = Some train_T100 \<and>
   length (filter (\<lambda>b. b_train b = t_id train_T100 \<and> b_journeyDate b = Datetime may_day \<and>
                        b_status b = ''confirmed'') (bookings booked_db)) = 3 \<and>
   distinct (map type (classes train_T100)) \<and>
   check_seat_availability ''T100'' ''2024-05-01'' booked_db =
     Inr (Some [(''SL'', - 1), (''AC'', - 1)]) \<and>
   check_availability ''T100'' ''2024-05-01'' booked_db = Inr [(''SL'', - 1), (''AC'', - 1)]"
proof -
  have f9: "find_one (\<lambda>t. trainNumber t = ''T900'') (trains booked_db) = None"
    by (simp add: find_one_def booked_db_def train_T100_def train_T200_def train_T300_def)
  have f: "find_one (\<lambda>t. trainNumber t = ''T100'') (trains booked_db) = Some train_T100"
    by (simp add: find_one_def booked_db_def train_T100_def)
  have n: "3 = length (filter (\<lambda>b. b_train b = t_id train_T100 \<and> b_journeyDate b = Datetime may_day \<and>
                        b_status b = ''confirmed'') (bookings booked_db))"
    by (simp add: booked_db_def stored_booking_def train_T100_def)
  have dist: "distinct (map type (classes train_T100))"
    by (simp add: train_T100_def)
  note t9 = check_seat_availability_counts [OF strptime_may_day, of "''T900''" booked_db]
  from t9 f9 have u: "check_seat_availability ''T900'' ''2024-05-01'' booked_db = Inr None \<and>
      check_availability ''T900'' ''2024-05-01'' booked_db =
        Inl (HTTPException 404 ''Train not found or no availability'')"
    by blast
  note t1 = check_seat_availability_counts [OF strptime_may_day, of "''T100''" booked_db]
  from t1 f n dist
  obtain av where "check_seat_availability ''T100'' ''2024-05-01'' booked_db = Inr (Some av)"
    and "av = map (\<lambda>c. (type c, totalSeats c - int 3)) (classes train_T100)"
    and "check_availability ''T100'' ''2024-05-01'' booked_db =
             (if classes train_T100 = [] then Inl (HTTPException 404 ''Train not found or no availability'')
              else Inr av)"
    by blast
  then have "check_seat_availability ''T100'' ''2024-05-01'' booked_db =
               Inr (Some [(''SL'', - 1), (''AC'', - 1)])"
    and "check_availability ''T100'' ''2024-05-01'' booked_db = Inr [(''SL'', - 1), (''AC'', - 1)]"
    by (simp_all add: train_T100_def)
  with f9 u f n dist strptime_may_day show ?thesis by simp
qed

subsection \<open>Cancelling a booking\<close>

lemma update_one_status_none:
  "find q coll = None \<Longrightarrow> update_one_status q v coll = (0, coll)"
  by (induction coll) (auto split: if_splits)

lemma update_one_status_same:
  "find q coll = Some b \<Longrightarrow> b_status b = v \<Longrightarrow> update_one_status q v coll = (0, coll)"
  by (induction coll) (auto split: if_splits)

lemma update_one_status_changed:
  "find q coll = Some b \<Longrightarrow> b_status b \<noteq> v \<Longrightarrow>
   \<exists>k < length coll. coll ! k = b \<and> (\<forall>j < k. \<not> q (coll ! j)) \<and>
     update_one_status q v coll = (1, coll[k := b\<lparr>b_status := v\<rparr>])"
proof (induction coll)
  case Nil
  then show ?case by simp
next
  case (Cons d ds)
  show ?case
  proof (cases "q d")
    case True
    with Cons.prems have "d = b" by simp
    with True Cons.prems(2) have
      "0 < length (d # ds) \<and> (d # ds) ! 0 = b \<and> (\<forall>j < 0. \<not> q ((d # ds) ! j)) \<and>
       update_one_status q v (d # ds) = (1, (d # ds)[0 := b\<lparr>b_status := v\<rparr>])"
      by simp
    then show ?thesis by blast
  next
    case False
    with Cons.prems have "find q ds = Some b" by simp
    from Cons.IH [OF this Cons.prems(2)] obtain k where k: "k < length ds" "ds ! k = b"
      "\<forall>j < k. \<not> q (ds ! j)" "update_one_status q v ds = (1, ds[k := b\<lparr>b_status := v\<rparr>])"
      by blast
    have "\<forall>j < Suc k. \<not> q ((d # ds) ! j)"
      using False k(3) by (auto simp: less_Suc_eq_0_disj)
    with False k have
      "Suc k < length (d # ds) \<and> (d # ds) ! Suc k = b \<and> (\<forall>j < Suc k. \<not> q ((d # ds) ! j)) \<and>
       update_one_status q v (d # ds) = (1, (d # ds)[Suc k := b\<lparr>b_status := v\<rparr>])"
      by simp
    then show ?thesis by blast
  qed
qed

lemma find_list_update_first:
  "k < length coll \<Longrightarrow> \<forall>j < k. \<not> q (coll ! j) \<Longrightarrow> q d \<Longrightarrow> find q (coll[k := d]) = Some d"
proof (induction coll arbitrary: k)
  case Nil
  then show ?case by simp
next
  case (Cons c cs)
  show ?case
  proof (cases k)
    case 0
    with Cons.prems show ?thesis by simp
  next
    case (Suc m)
    with Cons.prems have "\<not> q c" by auto
    moreover from Suc Cons.prems have "m < length cs" "\<forall>j < m. \<not> q (cs ! j)" by auto
    ultimately show ?thesis using Suc Cons.IH [of m] Cons.prems(3) by simp
  qed
qed

lemma cancel_booking_none:
  "find_one (\<lambda>d. b_id d = i) (bookings db) = None \<Longrightarrow> cancel_booking i db = (False, db)"
  by (simp add: cancel_booking_def find_one_def update_one_status_none)

lemma cancel_booking_already:
  "find_one (\<lambda>d. b_id d = i) (bookings db) = Some b \<Longrightarrow> b_status b = ''cancelled'' \<Longrightarrow>
   cancel_booking i db = (False, db)"
  by (simp add: cancel_booking_def find_one_def update_one_status_same)

lemma cancel_booking_changes:
  assumes "find_one (\<lambda>d. b_id d = i) (bookings db) = Some b" and "b_status b \<noteq> ''cancelled''"
  shows "\<exists>k < length (bookings db). bookings db ! k = b \<and>
           (\<forall>j < k. b_id (bookings db ! j) \<noteq> i) \<and>
           cancel_booking i db =
             (True, db\<lparr>bookings := (bookings db)[k := b\<lparr>b_status := ''cancelled''\<rparr>]\<rparr>)"
proof -
  from assms(1) have "find (\<lambda>d. b_id d = i) (bookings db) = Some b"
    by (simp add: find_one_def)
  from update_one_status_changed [OF this assms(2)] obtain k where
    k: "k < length (bookings db)" "bookings db ! k = b"
       "\<forall>j < k. b_id (bookings db ! j) \<noteq> i"
       "update_one_status (\<lambda>d. b_id d = i) ''cancelled'' (bookings db) =
          (1, (bookings db)[k := b\<lparr>b_status := ''cancelled''\<rparr>])"
    by blast
  from k(4) have "cancel_booking i db =
      (True, db\<lparr>bookings := (bookings db)[k := b\<lparr>b_status := ''cancelled''\<rparr>]\<rparr>)"
    by (simp add: cancel_booking_def)
  with k(1-3) show ?thesis by blast
qed

text \<open>
  C4, as stated, fails: the update has no condition on the current status. The booking
  \<^verbatim>\<open>b4\<close> of the example has status \<^verbatim>\<open>pending\<close>; cancelling it succeeds and
  leaves it with status \<^verbatim>\<open>cancelled\<close>.
\<close>

theorem cancel_booking_pending_counterexample:
  "map b_status (bookings booked_db) =
     [''confirmed'', ''confirmed'', ''confirmed'', ''pending'', ''cancelled''] \<and>
   b_id (bookings booked_db ! 3) = Str ''b4'' \<and>
   fst (cancel_booking (Str ''b4'') booked_db) = True \<and>
   map b_status (bookings (snd (cancel_booking (Str ''b4'') booked_db))) =
     [''confirmed'', ''confirmed'', ''confirmed'', ''cancelled'', ''cancelled''] \<and>
   fst (cancel_ticket ''b4'' booked_db) = Inr ''Booking cancelled successfully''"
  by (simp add: cancel_ticket_def cancel_booking_def booked_db_def stored_booking_def)

text \<open>
  C4, amended. \<open>cancel_booking\<close> looks the booking up by its id. When the first booking
  with that id has any status other than \<^verbatim>\<open>cancelled\<close>, the call returns \<open>True\<close>
  and sets the status of that one document to \<^verbatim>\<open>cancelled\<close>; every other field,
  every other document and the trains stay as they were (there is no inventory to release),
  and a second cancel of the same id returns \<open>False\<close> and changes nothing. When no booking
  has the id, or its status is \<^verbatim>\<open>cancelled\<close> already, the call returns \<open>False\<close>
  and leaves the database as it was.
\<close>

theorem cancel_booking_transitions:
  "(find_one (\<lambda>d. b_id d = i) (bookings db) = None \<longrightarrow> cancel_booking i db = (False, db)) \<and>
   (\<forall>b. find_one (\<lambda>d. b_id d = i) (bookings db) = Some b \<and> b_status b = ''cancelled'' \<longrightarrow>
        cancel_booking i db = (False, db)) \<and>
   (\<forall>b. find_one (\<lambda>d. b_id d = i) (bookings db) = Some b \<and> b_status b \<noteq> ''cancelled'' \<longrightarrow>
        (\<exists>k < length (bookings db). bookings db ! k = b \<and>
           cancel_booking i db =
             (True, db\<lparr>bookings := (bookings db)[k := b\<lparr>b_status := ''cancelled''\<rparr>]\<rparr>) \<and>
           cancel_booking i (snd (cancel_booking i db)) = (False, snd (cancel_booking i db))))"
proof (intro conjI allI impI)
  assume "find_one (\<lambda>d. b_id d = i) (bookings db) = None"
  then show "cancel_booking i db = (False, db)" by (rule cancel_booking_none)
next
  fix b assume "find_one (\<lambda>d. b_id d = i) (bookings db) = Some b \<and> b_status b = ''cancelled''"
  then show "cancel_booking i db = (False, db)" by (blast intro: cancel_booking_already)
next
  fix b assume a: "find_one (\<lambda>d. b_id d = i) (bookings db) = Some b \<and> b_status b \<noteq> ''cancelled''"
  then have f: "find_one (\<lambda>d. b_id d = i) (bookings db) = Some b" and s: "b_status b \<noteq> ''cancelled''"
    by simp_all
  from cancel_booking_changes [OF f s] obtain k where
    k: "k < length (bookings db)" "bookings db ! k = b" "\<forall>j < k. b_id (bookings db ! j) \<noteq> i"
       "cancel_booking i db =
          (True, db\<lparr>bookings := (bookings db)[k := b\<lparr>b_status := ''cancelled''\<rparr>]\<rparr>)"
    by blast
  let ?b' = "b\<lparr>b_status := ''cancelled''\<rparr>"
  let ?db' = "db\<lparr>bookings := (bookings db)[k := ?b']\<rparr>"
  from f have "b_id b = i"
    by (auto simp: find_one_def find_Some_iff)
  then have "b_id ?b' = i" by simp
  with k(1,3) have "find (\<lambda>d. b_id d = i) ((bookings db)[k := ?b']) = Some ?b'"
    by (intro find_list_update_first) simp_all
  then have "find_one (\<lambda>d. b_id d = i) (bookings ?db') = Some ?b'"
    by (simp add: find_one_def)
  then have "cancel_booking i ?db' = (False, ?db')"
    by (rule cancel_booking_already) simp
  with k show "\<exists>k < length (bookings db). bookings db ! k = b \<and>
           cancel_booking i db =
             (True, db\<lparr>bookings := (bookings db)[k := b\<lparr>b_status := ''cancelled''\<rparr>]\<rparr>) \<and>
           cancel_booking i (snd (cancel_booking i db)) = (False, snd (cancel_booking i db))"
    by auto
qed

theorem cancel_booking_transitions_witness:
  "find_one (\<lambda>d. b_id d = Str ''b6'') (bookings booked_db) = None \<and>
   cancel_booking (Str ''b6'') booked_db = (False, booked_db) \<and>
   find_one (\<lambda>d. b_id d = Str ''b5'') (bookings booked_db) =
     Some (stored_booking (Str ''b5'') ''AAAAAAAAAE'' ''cancelled'') \<and>
   cancel_booking (Str ''b5'') booked_db = (False, booked_db) \<and>
   find_one (\<lambda>d. b_id d = Str ''b4'') (bookings booked_db) =
     Some (stored_booking (Str ''b4'') ''AAAAAAAAAD'' ''pending'') \<and>
   fst (cancel_booking (Str ''b4'') booked_db) = True \<and>
   cancel_booking (Str ''b4'') (snd (cancel_booking (Str ''b4'') booked_db)) =
     (False, snd (cancel_booking (Str ''b4'') booked_db))"
proof -
  have f6: "find_one (\<lambda>d. b_id d = Str ''b6'') (bookings booked_db) = None"
    by (simp add: find_one_def booked_db_def stored_booking_def)
  have f5: "find_one (\<lambda>d. b_id d = Str ''b5'') (bookings booked_db) =
     Some (stored_booking (Str ''b5'') ''AAAAAAAAAE'' ''cancelled'')"
    by (simp add: find_one_def booked_db_def stored_booking_def)
  have s5: "b_status (stored_booking (Str ''b5'') ''AAAAAAAAAE'' ''cancelled'') = ''cancelled''"
    by (simp add: stored_booking_def)
  have f4: "find_one (\<lambda>d. b_id d = Str ''b4'') (bookings booked_db) =
     Some (stored_booking (Str ''b4'') ''AAAAAAAAAD'' ''pending'')"
    by (simp add: find_one_def booked_db_def stored_booking_def)
  have s4: "b_status (stored_booking (Str ''b4'') ''AAAAAAAAAD'' ''pending'') \<noteq> ''cancelled''"
    by (simp add: stored_booking_def)
  from cancel_booking_transitions [of "Str ''b6''" booked_db] f6
  have c6: "cancel_booking (Str ''b6'') booked_db = (False, booked_db)" by blast
  from cancel_booking_transitions [of "Str ''b5''" booked_db] f5 s5
  have c5: "cancel_booking (Str ''b5'') booked_db = (False, booked_db)" by blast
  from cancel_booking_transitions [of "Str ''b4''" booked_db] f4 s4
  have c4: "fst (cancel_booking (Str ''b4'') booked_db) = True \<and>
    cancel_booking (Str ''b4'') (snd (cancel_booking (Str ''b4'') booked_db)) =
     (False, snd (cancel_booking (Str ''b4'') booked_db))"
    by (metis fst_conv)
  from f6 c6 f5 c5 f4 c4 show ?thesis by blast
qed

text \<open>
  C9. \<open>cancel_booking\<close> returns \<open>False\<close> and changes nothing both when no booking has the
  given id and when the booking with that id has status \<^verbatim>\<open>cancelled\<close> already, and
  the route \<open>cancel_ticket\<close> answers both with the same 404 error: the caller cannot tell
  the two cases apart.
\<close>

theorem cancel_missing_or_repeated:
  assumes "find_one (\<lambda>d. b_id d = Str i) (bookings db) = None \<or>
           (\<exists>b. find_one (\<lambda>d. b_id d = Str i) (bookings db) = Some b \<and>
                b_status b = ''cancelled'')"
  shows "cancel_booking (Str i) db = (False, db) \<and>
         cancel_ticket i db =
           (Inl (HTTPException 404 ''Booking not found or already cancelled''), db)"
proof -
  from assms have "cancel_booking (Str i) db = (False, db)"
    by (blast intro: cancel_booking_none cancel_booking_already)
  then show ?thesis by (simp add: cancel_ticket_def)
qed

theorem cancel_missing_or_repeated_witness:
  "find_one (\<lambda>d. b_id d = Str ''b6'') (bookings booked_db) = None \<and>
   find_one (\<lambda>d. b_id d = Str ''b5'') (bookings booked_db) =
     Some (stored_booking (Str ''b5'') ''AAAAAAAAAE'' ''cancelled'') \<and>
   cancel_booking (Str ''b6'') booked_db = (False, booked_db) \<and>
   cancel_booking (Str ''b5'') booked_db = (False, booked_db) \<and>
   cancel_ticket ''b6'' booked_db =
     (Inl (HTTPException 404 ''Booking not found or already cancelled''), booked_db) \<and>
   cancel_ticket ''b5'' booked_db = cancel_ticket ''b6'' booked_db"
proof -
  have f6: "find_one (\<lambda>d. b_id d = Str ''b6'') (bookings booked_db) = None"
    by (simp add: find_one_def booked_db_def stored_booking_def)
  have f5: "find_one (\<lambda>d. b_id d = Str ''b5'') (bookings booked_db) =
     Some (stored_booking (Str ''b5'') ''AAAAAAAAAE'' ''cancelled'')"
    by (simp add: find_one_def booked_db_def stored_booking_def)
  have s5: "b_status (stored_booking (Str ''b5'') ''AAAAAAAAAE'' ''cancelled'') = ''cancelled''"
    by (simp add: stored_booking_def)
  from f6 have h6: "find_one (\<lambda>d. b_id d = Str ''b6'') (bookings booked_db) = None \<or>
     (\<exists>b. find_one (\<lambda>d. b_id d = Str ''b6'') (bookings booked_db) = Some b \<and>
          b_status b = ''cancelled'')" by (rule disjI1)
  from f5 s5 have h5: "find_one (\<lambda>d. b_id d = Str ''b5'') (bookings booked_db) = None \<or>
     (\<exists>b. find_one (\<lambda>d. b_id d = Str ''b5'') (bookings booked_db) = Some b \<and>
          b_status b = ''cancelled'')" by blast
  note r6 = cancel_missing_or_repeated [OF h6]
  note r5 = cancel_missing_or_repeated [OF h5]
  from f6 f5 r6 r5 show ?thesis by simp
qed

subsection \<open>Creating a booking\<close>



text \<open>
  The document that \<open>create_booking\<close> hands to \<open>insert_one\<close> holds the journey date of
  the request, a calendar date, so the driver refuses it: every call ends with
  \<^verbatim>\<open>InvalidDocument\<close>, after the ten draws of the code, and leaves the database as
  it was.
\<close>

lemma insert_one_request:
  "insert_one (to_document oid b) coll = Inl InvalidDocument"
  by (simp add: insert_one_def to_document_def bson_encodable_def)

lemma create_booking_raises:
  "create_booking g oid b db = (Inl InvalidDocument, db, rng_drop 10 g)"
  by (simp add: create_booking_def random_choices_def insert_one_request Let_def)

lemma book_ticket_raises:
  "book_ticket g oid b db = (Inl InvalidDocument, db, rng_drop 10 g)"
  by (simp add: book_ticket_def create_booking_raises)

text \<open>
  C8. The claim is right about what \<open>create_booking\<close> sets out to do and the code does not
  do it: for the example request (as for every request) the insertion is refused with
  \<^verbatim>\<open>InvalidDocument\<close>, nothing is persisted and the route returns no booking.
\<close>

theorem create_booking_example_raises:
  "create_booking rnd_zero 10 example_booking example_db =
     (Inl InvalidDocument, example_db, rng_drop 10 rnd_zero) \<and>
   bookings (fst (snd (create_booking rnd_zero 10 example_booking example_db))) = [] \<and>
   book_ticket rnd_zero 10 example_booking example_db =
     (Inl InvalidDocument, example_db, rng_drop 10 rnd_zero)"
  by (simp add: create_booking_raises book_ticket_raises example_db_def)








subsection \<open>Seats along a sequence of requests\<close>









end
